theory Spec2Isabelle
  imports Complex_Main "HOL-Library.AList"
begin

text \<open>
  An embedding of \<^verbatim>\<open>flask-marshmallow/flask_example.py\<close>: two mapped classes, two
  marshmallow schemas and five Flask route handlers. The libraries behave as the versions
  the file is written against do: a marshmallow 2 schema returns the pair
  \<^verbatim>\<open>(data, errors)\<close> from \<^verbatim>\<open>load\<close> and collects \<^verbatim>\<open>ValidationError\<close>s per field, its
  \<^verbatim>\<open>pre_load\<close> hook gets the raw input and any other exception of it propagates; a class
  derived from SQLAlchemy's \<^verbatim>\<open>declarative_base()\<close> has the attributes of its body and of
  the declarative machinery, and no more. A handler is a function of the database and the
  request; an exception that leaves the handler is its result.
\<close>

section \<open>Python values, truthiness and exceptions\<close>

text \<open>
  The values that \<^verbatim>\<open>request.get_json()\<close> hands to the handlers and that
  \<^verbatim>\<open>jsonify\<close> sends back: \<^verbatim>\<open>None\<close>, booleans, integers, floats, strings, lists
  and dicts with string keys. A dict is an association list read with \<open>map_of\<close> and
  written with \<open>AList.update\<close> (an existing key keeps its place, a new key goes last).
\<close>

datatype pyfloat = Finite rat | PosInf | NegInf | NaN

datatype json =
    JNull
  | JBool bool
  | JInt int
  | JFloat pyfloat
  | JStr string
  | JArr "json list"
  | JObj "(string \<times> json) list"

type_synonym dict = "(string \<times> json) list"

text \<open>The exceptions the program can raise. \<open>ValidationError\<close> carries its message.\<close>

datatype py_error =
    AttributeError
  | NameError
  | ValueError
  | KeyError
  | TypeError
  | IntegrityError
  | ValidationError json

text \<open>Python's truth value of an object, as \<^verbatim>\<open>if x:\<close> and \<^verbatim>\<open>not x\<close> test it.\<close>

fun truthy :: "json \<Rightarrow> bool" where
  "truthy JNull = False"
| "truthy (JBool b) = b"
| "truthy (JInt i) = (i \<noteq> 0)"
| "truthy (JFloat f) = (f \<noteq> Finite 0)"
| "truthy (JStr s) = (s \<noteq> [])"
| "truthy (JArr xs) = (xs \<noteq> [])"
| "truthy (JObj kvs) = (kvs \<noteq> [])"

text \<open>\<^verbatim>\<open>d.get(k)\<close>: the value, or \<^verbatim>\<open>None\<close> for a missing key.\<close>

definition dict_get :: "dict \<Rightarrow> string \<Rightarrow> json" where
  "dict_get d k = (case map_of d k of None \<Rightarrow> JNull | Some v \<Rightarrow> v)"

text \<open>\<^verbatim>\<open>x[k]\<close> with a string key: \<^verbatim>\<open>KeyError\<close> on a dict without the key,
  \<^verbatim>\<open>TypeError\<close> on anything that is not a dict.\<close>

fun subscript :: "json \<Rightarrow> string \<Rightarrow> py_error + json" where
  "subscript (JObj d) k = (case map_of d k of None \<Rightarrow> Inl KeyError | Some v \<Rightarrow> Inr v)"
| "subscript _ k = Inl TypeError"

text \<open>\<^verbatim>\<open>s.split(c)\<close> with an explicit separator: the string is cut at every
  occurrence of the separator, empty pieces are kept, and the result is never empty.\<close>

primrec split_on :: "char \<Rightarrow> string \<Rightarrow> string list" where
  "split_on c [] = [[]]"
| "split_on c (x # xs) =
     (let r = split_on c xs in if x = c then [] # r else (x # hd r) # tl r)"

text \<open>\<^verbatim>\<open>a, b = xs\<close>: unpacking into two variables raises \<^verbatim>\<open>ValueError\<close> unless the
  sequence has exactly two items.\<close>

definition unpack2 :: "'a list \<Rightarrow> py_error + ('a \<times> 'a)" where
  "unpack2 xs = (case xs of [a, b] \<Rightarrow> Inr (a, b) | _ \<Rightarrow> Inl ValueError)"

section \<open>Models\<close>

text \<open>
  The two mapped classes. An attribute of a mapped object holds a value or \<^verbatim>\<open>None\<close>;
  that \<^verbatim>\<open>content\<close> is not nullable is checked by the database on commit. A
  \<^verbatim>\<open>DateTime\<close> value is only ever stored and rendered by the program, so it is kept as
  the text \<^verbatim>\<open>isoformat()\<close> gives for it (a naive time, without offset).
\<close>

type_synonym datetime = string

record Author =
  Author_id :: int
  Author_first :: "string option"
  Author_last :: "string option"

record Quote =
  Quote_id :: int
  Quote_content :: "string option"
  Quote_author_id :: "int option"
  Quote_posted_at :: "datetime option"

record db =
  authors :: "Author list"
  quotes :: "Quote list"

text \<open>
  The attributes of the mapped classes: those the class bodies declare (plus the
  back-reference \<^verbatim>\<open>quotes\<close> that \<^verbatim>\<open>Quote.author\<close> installs on \<^verbatim>\<open>Author\<close>), and those
  every class derived from \<^verbatim>\<open>declarative_base()\<close> gets. Nothing in the program installs
  a \<^verbatim>\<open>query\<close> attribute on \<^verbatim>\<open>Base\<close> or on either class.
\<close>

definition Base_attrs :: "string list" where
  "Base_attrs =
     [''metadata'', ''__init__'', ''__table__'', ''__mapper__'',
      ''_decl_class_registry'', ''_sa_class_manager'']"

definition Author_attrs :: "string list" where
  "Author_attrs = [''__tablename__'', ''id'', ''first'', ''last'', ''quotes'']"

definition Quote_attrs :: "string list" where
  "Quote_attrs =
     [''__tablename__'', ''id'', ''content'', ''author_id'', ''author'', ''posted_at'']"

text \<open>Attribute access on a mapped class: its own attributes, then those of \<^verbatim>\<open>Base\<close>.\<close>

definition class_getattr :: "string list \<Rightarrow> string \<Rightarrow> py_error + unit" where
  "class_getattr attrs name =
     (if name \<in> set (attrs @ Base_attrs) then Inr () else Inl AttributeError)"

text \<open>The names bound at module level: the imports, then every top-level assignment,
  class and function of the file.\<close>

definition module_globals :: "string list" where
  "module_globals =
     [''datetime'', ''Flask'', ''jsonify'', ''request'', ''g'', ''declarative_base'',
      ''Column'', ''Integer'', ''String'', ''ForeignKey'', ''DateTime'', ''relationship'',
      ''backref'', ''IntegrityError'', ''create_engine'', ''Session'', ''sessionmaker'',
      ''Schema'', ''fields'', ''ValidationError'', ''pre_load'',
      ''app'', ''engine'', ''Base'', ''Author'', ''Quote'', ''AuthorSchema'',
      ''must_not_be_blank'', ''QuoteSchema'', ''author_schema'', ''authors_schema'',
      ''quote_schema'', ''quotes_schema'', ''before_request'', ''teardown_request'',
      ''get_authors'', ''get_author'', ''get_quotes'', ''get_quote'', ''new_quote'']"

text \<open>Reading a name that is neither local nor a builtin inside a function:
  \<^verbatim>\<open>NameError\<close> when the module does not bind it.\<close>

definition global_lookup :: "string \<Rightarrow> py_error + unit" where
  "global_lookup name = (if name \<in> set module_globals then Inr () else Inl NameError)"

section \<open>Schemas\<close>

subsection \<open>AuthorSchema\<close>

text \<open>\<^verbatim>\<open>"{}".format(v)\<close> for a value that is a string or \<^verbatim>\<open>None\<close>.\<close>

definition py_str :: "string option \<Rightarrow> string" where
  "py_str v = (case v of None \<Rightarrow> ''None'' | Some s \<Rightarrow> s)"

definition format_name :: "Author \<Rightarrow> string" where
  "format_name author = py_str (Author_last author) @ '', '' @ py_str (Author_first author)"

text \<open>A \<^verbatim>\<open>fields.Str\<close> on dump: \<^verbatim>\<open>None\<close> stays \<^verbatim>\<open>None\<close>.\<close>

definition dump_str :: "string option \<Rightarrow> json" where
  "dump_str v = (case v of None \<Rightarrow> JNull | Some s \<Rightarrow> JStr s)"

definition AuthorSchema_dump :: "Author \<Rightarrow> dict" where
  "AuthorSchema_dump author =
     [(''id'', JInt (Author_id author)),
      (''first'', dump_str (Author_first author)),
      (''last'', dump_str (Author_last author)),
      (''formatted_name'', JStr (format_name author))]"

text \<open>\<^verbatim>\<open>AuthorSchema(many=True)\<close>.\<close>

definition authors_schema_dump :: "Author list \<Rightarrow> json" where
  "authors_schema_dump rows = JArr (map (\<lambda>a. JObj (AuthorSchema_dump a)) rows)"

subsection \<open>Field deserialisation\<close>

text \<open>The custom validator.\<close>

definition must_not_be_blank :: "json \<Rightarrow> py_error + unit" where
  "must_not_be_blank data =
     (if \<not> truthy data then Inl (ValidationError (JStr ''Data not provided.'')) else Inr ())"

text \<open>A \<^verbatim>\<open>ValidationError\<close> built from one string holds the one-element list of it;
  built from a list or a dict it holds that.\<close>

fun messages :: "json \<Rightarrow> json" where
  "messages (JStr m) = JArr [JStr m]"
| "messages m = m"

text \<open>Running a field's validator on the deserialised value: a \<^verbatim>\<open>ValidationError\<close>
  is re-raised with its messages, anything else passes through.\<close>

definition field_validate :: "(json \<Rightarrow> py_error + unit) \<Rightarrow> json \<Rightarrow> py_error + json" where
  "field_validate validator v =
     (case validator v of
        Inl (ValidationError m) \<Rightarrow> Inl (ValidationError (messages m))
      | Inl e \<Rightarrow> Inl e
      | Inr _ \<Rightarrow> Inr v)"

text \<open>\<^verbatim>\<open>fields.Str\<close> on load: \<^verbatim>\<open>None\<close> is refused (the field does not allow it),
  so is every value that is not a string.\<close>

definition Str_deserialize :: "json \<Rightarrow> py_error + json" where
  "Str_deserialize v =
     (case v of
        JNull \<Rightarrow> Inl (ValidationError (JArr [JStr ''Field may not be null.'']))
      | JStr s \<Rightarrow> Inr (JStr s)
      | _ \<Rightarrow> Inl (ValidationError (JArr [JStr ''Not a valid string.''])))"

text \<open>
  One field of a schema on load. The raw value is looked up in the input; a missing value
  is an error for a required field and is skipped otherwise; a \<^verbatim>\<open>ValidationError\<close> of
  the field is stored under the field's name; any other exception propagates. The pair is
  the \<^verbatim>\<open>(data, errors)\<close> built so far.
\<close>

definition load_field ::
  "string \<Rightarrow> bool \<Rightarrow> (json \<Rightarrow> py_error + json) \<Rightarrow> dict \<Rightarrow> dict \<times> dict \<Rightarrow> py_error + dict \<times> dict"
where
  "load_field name required deserialize input acc =
     (case map_of input name of
        None \<Rightarrow>
          (if required
           then Inr (fst acc,
                  AList.update name (JArr [JStr ''Missing data for required field.'']) (snd acc))
           else Inr acc)
      | Some raw \<Rightarrow>
          (case deserialize raw of
             Inl (ValidationError m) \<Rightarrow> Inr (fst acc, AList.update name m (snd acc))
           | Inl e \<Rightarrow> Inl e
           | Inr v \<Rightarrow> Inr (AList.update name v (fst acc), snd acc)))"

text \<open>\<^verbatim>\<open>AuthorSchema().load(value)\<close>: the fields \<^verbatim>\<open>first\<close> and \<^verbatim>\<open>last\<close> (\<^verbatim>\<open>id\<close> and
  \<^verbatim>\<open>formatted_name\<close> are dump-only). An input that is not a dict is a schema-level error.\<close>

definition AuthorSchema_load :: "json \<Rightarrow> py_error + dict \<times> dict" where
  "AuthorSchema_load v =
     (case v of
        JObj input \<Rightarrow>
          (case load_field ''first'' False Str_deserialize input ([], []) of
             Inl e \<Rightarrow> Inl e
           | Inr acc \<Rightarrow> load_field ''last'' False Str_deserialize input acc)
      | _ \<Rightarrow> Inr ([], [(''_schema'', JArr [JStr ''Invalid input type.''])]))"

text \<open>\<^verbatim>\<open>fields.Nested(AuthorSchema, validate=must_not_be_blank)\<close> on load: \<^verbatim>\<open>None\<close> is
  refused, the nested schema loads the value, its errors (if any) are raised as one
  \<^verbatim>\<open>ValidationError\<close>, and the validator runs on the loaded dict.\<close>

definition author_deserialize :: "json \<Rightarrow> py_error + json" where
  "author_deserialize v =
     (if v = JNull then Inl (ValidationError (JArr [JStr ''Field may not be null.'']))
      else
        (case AuthorSchema_load v of
           Inl e \<Rightarrow> Inl e
         | Inr (data, errors) \<Rightarrow>
             (if errors \<noteq> [] then Inl (ValidationError (JObj errors))
              else field_validate must_not_be_blank (JObj data))))"

text \<open>\<^verbatim>\<open>fields.Str(required=True, validate=must_not_be_blank)\<close> on load.\<close>

definition content_deserialize :: "json \<Rightarrow> py_error + json" where
  "content_deserialize v =
     (case Str_deserialize v of
        Inl e \<Rightarrow> Inl e
      | Inr s \<Rightarrow> field_validate must_not_be_blank s)"

subsection \<open>QuoteSchema\<close>

text \<open>
  The pre-load hook. \<^verbatim>\<open>data.get\<close> exists on a dict only, \<^verbatim>\<open>split\<close> on a string only;
  on any other object the attribute access raises \<^verbatim>\<open>AttributeError\<close>.
\<close>

definition process_author :: "json \<Rightarrow> py_error + dict" where
  "process_author data =
     (case data of
        JObj d \<Rightarrow>
          (let author_name = dict_get d ''author'' in
           if truthy author_name then
             (case author_name of
                JStr s \<Rightarrow>
                  (case unpack2 (split_on CHR '' '' s) of
                     Inl e \<Rightarrow> Inl e
                   | Inr (first', last') \<Rightarrow>
                       Inr (AList.update ''author''
                              (JObj [(''first'', JStr first'), (''last'', JStr last')]) d))
              | _ \<Rightarrow> Inl AttributeError)
           else Inr (AList.update ''author'' (JObj []) d))
      | _ \<Rightarrow> Inl AttributeError)"

text \<open>
  \<^verbatim>\<open>QuoteSchema().load(data)\<close>: the pre-load hook first (an exception of it that is not
  a \<^verbatim>\<open>ValidationError\<close> propagates), then the fields \<^verbatim>\<open>author\<close> and \<^verbatim>\<open>content\<close>
  (\<^verbatim>\<open>id\<close> and \<^verbatim>\<open>posted_at\<close> are dump-only). The result is the pair \<^verbatim>\<open>(data, errors)\<close>.
\<close>

definition QuoteSchema_load :: "json \<Rightarrow> py_error + dict \<times> dict" where
  "QuoteSchema_load data =
     (case process_author data of
        Inl e \<Rightarrow> Inl e
      | Inr input \<Rightarrow>
          (case load_field ''author'' False author_deserialize input ([], []) of
             Inl e \<Rightarrow> Inl e
           | Inr acc \<Rightarrow> load_field ''content'' True content_deserialize input acc))"

text \<open>A \<^verbatim>\<open>fields.DateTime\<close> on dump: a naive time is taken as UTC and rendered with the
  offset \<^verbatim>\<open>+00:00\<close> appended; \<^verbatim>\<open>None\<close> stays \<^verbatim>\<open>None\<close>.\<close>

definition dump_datetime :: "datetime option \<Rightarrow> json" where
  "dump_datetime v = (case v of None \<Rightarrow> JNull | Some t \<Rightarrow> JStr (t @ ''+00:00''))"

text \<open>\<^verbatim>\<open>quote.author\<close>: the row the foreign key points to, if any.\<close>

definition Quote_author :: "db \<Rightarrow> Quote \<Rightarrow> Author option" where
  "Quote_author s q =
     (case Quote_author_id q of
        None \<Rightarrow> None
      | Some k \<Rightarrow> find (\<lambda>a. Author_id a = k) (authors s))"

definition QuoteSchema_dump :: "db \<Rightarrow> Quote \<Rightarrow> dict" where
  "QuoteSchema_dump s q =
     [(''id'', JInt (Quote_id q)),
      (''author'', (case Quote_author s q of None \<Rightarrow> JNull | Some a \<Rightarrow> JObj (AuthorSchema_dump a))),
      (''content'', dump_str (Quote_content q)),
      (''posted_at'', dump_datetime (Quote_posted_at q))]"

text \<open>\<^verbatim>\<open>QuoteSchema(many=True, only=('id', 'content'))\<close>.\<close>

definition quotes_schema_dump :: "Quote list \<Rightarrow> json" where
  "quotes_schema_dump rows =
     JArr (map (\<lambda>q. JObj [(''id'', JInt (Quote_id q)), (''content'', dump_str (Quote_content q))]) rows)"

section \<open>Route handlers\<close>

text \<open>
  A handler returns a response or raises. \<^verbatim>\<open>jsonify(x)\<close> alone is a 200 response;
  \<^verbatim>\<open>jsonify(x), n\<close> has status \<open>n\<close>.

  Four handlers read \<^verbatim>\<open>Author.query\<close> or \<^verbatim>\<open>Quote.query\<close>, and \<^verbatim>\<open>new_quote\<close> reads the
  global \<^verbatim>\<open>db\<close>; both reads go through \<open>class_getattr\<close> and \<open>global_lookup\<close>. What follows
  such a read is written out under the usual meaning of a model's \<^verbatim>\<open>query\<close> (the
  session's query over that model's table, as \<^verbatim>\<open>get_quotes\<close> builds it by hand) and of a
  session's \<^verbatim>\<open>add\<close> and \<^verbatim>\<open>commit\<close>.
\<close>

record response =
  status :: nat
  body :: json

definition get_authors :: "db \<Rightarrow> py_error + response" where
  "get_authors s =
     (case class_getattr Author_attrs ''query'' of
        Inl e \<Rightarrow> Inl e
      | Inr _ \<Rightarrow>
          Inr \<lparr>status = 200, body = JObj [(''authors'', authors_schema_dump (authors s))]\<rparr>)"

text \<open>
  The \<^verbatim>\<open>try\<close> block catches \<^verbatim>\<open>IntegrityError\<close> only. \<^verbatim>\<open>Query.get\<close> gives \<^verbatim>\<open>None\<close> for a
  key without a row; dumping \<^verbatim>\<open>None\<close> through \<^verbatim>\<open>AuthorSchema\<close> calls \<^verbatim>\<open>format_name(None)\<close>,
  whose attribute access raises.
\<close>

definition get_author :: "db \<Rightarrow> int \<Rightarrow> py_error + response" where
  "get_author s pk =
     (case class_getattr Author_attrs ''query'' of
        Inl IntegrityError \<Rightarrow>
          Inr \<lparr>status = 400, body = JObj [(''message'', JStr ''Author could not be found.'')]\<rparr>
      | Inl e \<Rightarrow> Inl e
      | Inr _ \<Rightarrow>
          (case find (\<lambda>a. Author_id a = pk) (authors s) of
             None \<Rightarrow> Inl AttributeError
           | Some author \<Rightarrow>
               Inr \<lparr>status = 200,
                    body = JObj
                      [(''author'', JObj (AuthorSchema_dump author)),
                       (''quotes'', quotes_schema_dump
                          (filter (\<lambda>q. Quote_author_id q = Some (Author_id author)) (quotes s)))]\<rparr>))"

definition get_quotes :: "db \<Rightarrow> py_error + response" where
  "get_quotes s = Inr \<lparr>status = 200, body = JObj [(''quotes'', quotes_schema_dump (quotes s))]\<rparr>"

text \<open>As \<open>get_author\<close>. Dumping \<^verbatim>\<open>None\<close> through \<^verbatim>\<open>QuoteSchema\<close> finds no attribute and
  gives the empty dict.\<close>

definition get_quote :: "db \<Rightarrow> int \<Rightarrow> py_error + response" where
  "get_quote s pk =
     (case class_getattr Quote_attrs ''query'' of
        Inl IntegrityError \<Rightarrow>
          Inr \<lparr>status = 400, body = JObj [(''message'', JStr ''Quote could not be found.'')]\<rparr>
      | Inl e \<Rightarrow> Inl e
      | Inr _ \<Rightarrow>
          (case find (\<lambda>q. Quote_id q = pk) (quotes s) of
             None \<Rightarrow> Inr \<lparr>status = 200, body = JObj [(''quote'', JObj [])]\<rparr>
           | Some quote \<Rightarrow>
               Inr \<lparr>status = 200, body = JObj [(''quote'', JObj (QuoteSchema_dump s quote))]\<rparr>))"

text \<open>The key an integer primary key column gets on insert: one more than the largest
  key of the table, 1 in an empty table.\<close>

definition next_id :: "int list \<Rightarrow> int" where
  "next_id ids = (case ids of [] \<Rightarrow> 1 | k # ks \<Rightarrow> fold max ks k + 1)"

text \<open>A loaded value as the value of a \<^verbatim>\<open>String\<close> column: a string is kept, \<^verbatim>\<open>None\<close> is
  the null value. A load without errors yields nothing but strings here.\<close>

definition column_str :: "json \<Rightarrow> string option" where
  "column_str v = (case v of JStr s \<Rightarrow> Some s | _ \<Rightarrow> None)"

text \<open>
  \<^verbatim>\<open>new_quote\<close>. \<open>json_data\<close> is what \<^verbatim>\<open>request.get_json()\<close> returned (\<open>JNull\<close> for
  \<^verbatim>\<open>None\<close>), \<open>now\<close> what \<^verbatim>\<open>datetime.datetime.utcnow()\<close> would return. After a load
  without errors the two names are read from the loaded data, the author is looked up by
  exact first and last name and created when there is none, the quote is created with the
  server's time, both are committed (a quote without content violates the column's
  constraint), and the quote is read back by its key and dumped. The state returned
  beside the result is the one the database is left in.
\<close>

definition new_quote :: "db \<Rightarrow> datetime \<Rightarrow> json \<Rightarrow> (py_error + response) \<times> db" where
  "new_quote s now json_data =
     (if \<not> truthy json_data then
        (Inr \<lparr>status = 400, body = JObj [(''message'', JStr ''No input data provided'')]\<rparr>, s)
      else
     (case QuoteSchema_load json_data of
        Inl e \<Rightarrow> (Inl e, s)
      | Inr (data, errors) \<Rightarrow>
     (if errors \<noteq> [] then (Inr \<lparr>status = 422, body = JObj errors\<rparr>, s)
      else
     (case subscript (JObj data) ''author'' of
        Inl e \<Rightarrow> (Inl e, s)
      | Inr a \<Rightarrow>
     (case subscript a ''first'' of
        Inl e \<Rightarrow> (Inl e, s)
      | Inr first' \<Rightarrow>
     (case subscript a ''last'' of
        Inl e \<Rightarrow> (Inl e, s)
      | Inr last' \<Rightarrow>
     (case class_getattr Author_attrs ''query'' of
        Inl e \<Rightarrow> (Inl e, s)
      | Inr _ \<Rightarrow>
     (let found = find (\<lambda>r. Author_first r = column_str first' \<and> Author_last r = column_str last')
                    (authors s) in
      case (if found = None then global_lookup ''db'' else Inr ()) of
        Inl e \<Rightarrow> (Inl e, s)
      | Inr _ \<Rightarrow>
     (let author = (case found of
                      None \<Rightarrow> \<lparr>Author_id = next_id (map Author_id (authors s)),
                               Author_first = column_str first',
                               Author_last = column_str last'\<rparr>
                    | Some r \<Rightarrow> r);
          s1 = (if found = None then s\<lparr>authors := authors s @ [author]\<rparr> else s) in
      case subscript (JObj data) ''content'' of
        Inl e \<Rightarrow> (Inl e, s)
      | Inr content \<Rightarrow>
     (let quote = \<lparr>Quote_id = next_id (map Quote_id (quotes s)),
                   Quote_content = column_str content,
                   Quote_author_id = Some (Author_id author),
                   Quote_posted_at = Some now\<rparr> in
      case global_lookup ''db'' of
        Inl e \<Rightarrow> (Inl e, s)
      | Inr _ \<Rightarrow>
     (if Quote_content quote = None then (Inl IntegrityError, s)
      else
     (let s2 = s1\<lparr>quotes := quotes s1 @ [quote]\<rparr> in
      case class_getattr Quote_attrs ''query'' of
        Inl e \<Rightarrow> (Inl e, s2)
      | Inr _ \<Rightarrow>
          (Inr \<lparr>status = 200,
                body = JObj [(''message'', JStr ''Created new quote.''),
                             (''quote'', JObj (QuoteSchema_dump s2 quote))]\<rparr>, s2)))))))))))))"

section \<open>The spec's reading of the name split\<close>

text \<open>
  Following the spec's words, not the code: the author string ``is split on the first
  space into first/last''. Everything before the first space is the first name,
  everything after it the last name. The code's \<open>process_author\<close> is compared with this.
\<close>

definition spec_split_first_space :: "string \<Rightarrow> string \<times> string" where
  "spec_split_first_space s =
     (takeWhile (\<lambda>x. x \<noteq> CHR '' '') s, drop 1 (dropWhile (\<lambda>x. x \<noteq> CHR '' '') s))"

section \<open>Splitting and unpacking\<close>

lemma split_on_not_Nil: "split_on c s \<noteq> []"
  by (induction s) (simp_all add: Let_def)

text \<open>The number of pieces is the number of separators plus one.\<close>

lemma length_split_on: "length (split_on c s) = Suc (count_list s c)"
proof (induction s)
  case Nil
  show ?case by simp
next
  case (Cons x xs)
  have "split_on c xs \<noteq> []" by (rule split_on_not_Nil)
  then have "length (tl (split_on c xs)) = count_list xs c"
    using Cons.IH by simp
  with Cons.IH show ?case by (simp add: Let_def)
qed

lemma split_on_no_sep: "c \<notin> set s \<Longrightarrow> split_on c s = [s]"
  by (induction s) (auto simp: Let_def)

lemma split_on_append: "c \<notin> set f \<Longrightarrow> split_on c (f @ c # l) = f # split_on c l"
  by (induction f) (auto simp: Let_def)

lemma split_on_two: "c \<notin> set f \<Longrightarrow> c \<notin> set l \<Longrightarrow> split_on c (f @ c # l) = [f, l]"
  by (simp add: split_on_append split_on_no_sep)

lemma unpack2_two: "unpack2 [a, b] = Inr (a, b)"
  by (simp add: unpack2_def)

lemma unpack2_ValueError: "length xs \<noteq> 2 \<Longrightarrow> unpack2 xs = Inl ValueError"
  by (auto simp: unpack2_def split: list.splits)

text \<open>A string with exactly one separator is the piece before it, the separator and the
  piece after it, and neither piece holds a separator.\<close>

lemma one_sep_decompose:
  assumes "count_list s c = 1"
  shows "s = takeWhile (\<lambda>x. x \<noteq> c) s @ c # drop 1 (dropWhile (\<lambda>x. x \<noteq> c) s) \<and>
         c \<notin> set (takeWhile (\<lambda>x. x \<noteq> c) s) \<and>
         c \<notin> set (drop 1 (dropWhile (\<lambda>x. x \<noteq> c) s))"
proof -
  let ?f = "takeWhile (\<lambda>x. x \<noteq> c) s" and ?r = "dropWhile (\<lambda>x. x \<noteq> c) s"
  have f: "c \<notin> set ?f"
    using set_takeWhileD [of c "\<lambda>x. x \<noteq> c" s] by blast
  have "c \<in> set s"
    using assms count_list_0_iff [of s c] by auto
  then have "?r \<noteq> []" by auto
  then have "hd ?r = c"
    using hd_dropWhile [of "\<lambda>x. x \<noteq> c" s] by simp
  with \<open>?r \<noteq> []\<close> obtain rest where r: "?r = c # rest"
    by (cases ?r) auto
  have "count_list (?f @ ?r) c = 1"
    using assms by simp
  then have "count_list ?f c + count_list ?r c = 1"
    by (simp only: count_list_append)
  with f have "count_list ?r c = 1" by simp
  then have "count_list rest c = 0"
    by (simp add: r)
  then have l: "c \<notin> set rest"
    by (simp add: count_list_0_iff)
  have "s = ?f @ ?r" by simp
  then have "s = ?f @ c # rest" by (simp only: r)
  with f l r show ?thesis by simp
qed

section \<open>The pre-load hook\<close>

lemma process_author_falsy:
  "\<not> truthy (dict_get d ''author'') \<Longrightarrow>
     process_author (JObj d) = Inr (AList.update ''author'' (JObj []) d)"
  by (simp add: process_author_def)

lemma process_author_absent:
  "map_of d ''author'' = None \<Longrightarrow>
     process_author (JObj d) = Inr (AList.update ''author'' (JObj []) d)"
  by (simp add: process_author_falsy dict_get_def)

lemma process_author_two_tokens:
  assumes "map_of d ''author'' = Some (JStr (f @ '' '' @ l))"
    and "CHR '' '' \<notin> set f" and "CHR '' '' \<notin> set l"
  shows "process_author (JObj d) =
           Inr (AList.update ''author'' (JObj [(''first'', JStr f), (''last'', JStr l)]) d)"
proof -
  have "split_on CHR '' '' (f @ '' '' @ l) = [f, l]"
    using assms(2,3) by (simp add: split_on_two)
  then show ?thesis
    using assms(1) by (simp add: process_author_def dict_get_def unpack2_two)
qed

lemma process_author_ValueError:
  assumes "map_of d ''author'' = Some (JStr a)" and "a \<noteq> []"
    and "count_list a CHR '' '' \<noteq> 1"
  shows "process_author (JObj d) = Inl ValueError"
proof -
  have "length (split_on CHR '' '' a) \<noteq> 2"
    using assms(3) by (simp add: length_split_on)
  then have "unpack2 (split_on CHR '' '' a) = Inl ValueError"
    by (rule unpack2_ValueError)
  then show ?thesis
    using assms(1,2) by (simp add: process_author_def dict_get_def)
qed

text \<open>Whenever the hook returns, it has replaced the author by the empty dict or by a
  dict of two strings, and touched nothing else.\<close>

lemma process_author_shape:
  assumes "process_author v = Inr input"
  shows "\<exists>d a. v = JObj d \<and> input = AList.update ''author'' (JObj a) d \<and>
           (a = [] \<or> (\<exists>f l. a = [(''first'', JStr f), (''last'', JStr l)]))"
  using assms
  by (auto simp: process_author_def Let_def split: json.splits if_splits sum.splits)

lemma process_author_succeeds:
  assumes "\<not> truthy (dict_get d ''author'') \<or>
           (\<exists>a. dict_get d ''author'' = JStr a \<and> count_list a CHR '' '' = 1)"
  shows "\<exists>input. process_author (JObj d) = Inr input"
  using assms
proof
  assume "\<not> truthy (dict_get d ''author'')"
  then show ?thesis by (simp add: process_author_falsy)
next
  assume "\<exists>a. dict_get d ''author'' = JStr a \<and> count_list a CHR '' '' = 1"
  then obtain a where a: "dict_get d ''author'' = JStr a" "count_list a CHR '' '' = 1"
    by blast
  from a(1) have "map_of d ''author'' = Some (JStr a)"
    by (auto simp: dict_get_def split: option.splits)
  moreover from a(2) one_sep_decompose [of a "CHR '' ''"]
  obtain f l where "a = f @ '' '' @ l" "CHR '' '' \<notin> set f" "CHR '' '' \<notin> set l"
    by auto
  ultimately show ?thesis
    using process_author_two_tokens [of d f l] by simp
qed

text \<open>The hook returns in exactly these cases: the author is absent or falsy, or it is a
  string with exactly one space.\<close>

lemma process_author_returns_iff:
  "(\<exists>input. process_author (JObj d) = Inr input) \<longleftrightarrow>
     \<not> truthy (dict_get d ''author'') \<or>
     (\<exists>a. dict_get d ''author'' = JStr a \<and> count_list a CHR '' '' = 1)"
proof
  assume "\<exists>input. process_author (JObj d) = Inr input"
  then obtain input where ret: "process_author (JObj d) = Inr input" by blast
  show "\<not> truthy (dict_get d ''author'') \<or>
      (\<exists>a. dict_get d ''author'' = JStr a \<and> count_list a CHR '' '' = 1)"
  proof (cases "truthy (dict_get d ''author'')")
    case False
    then show ?thesis by simp
  next
    case True
    with ret obtain a where a: "dict_get d ''author'' = JStr a"
      and "unpack2 (split_on CHR '' '' a) \<noteq> Inl ValueError"
      by (auto simp: process_author_def split: json.splits sum.splits)
    then have "length (split_on CHR '' '' a) = 2"
      using unpack2_ValueError by blast
    then have "count_list a CHR '' '' = 1"
      by (simp add: length_split_on)
    with a show ?thesis by blast
  qed
next
  assume "\<not> truthy (dict_get d ''author'') \<or>
      (\<exists>a. dict_get d ''author'' = JStr a \<and> count_list a CHR '' '' = 1)"
  then show "\<exists>input. process_author (JObj d) = Inr input"
    by (rule process_author_succeeds)
qed

section \<open>Loading a quote\<close>

lemma author_deserialize_empty:
  "author_deserialize (JObj []) = Inl (ValidationError (JArr [JStr ''Data not provided.'']))"
  by (simp add: author_deserialize_def AuthorSchema_load_def load_field_def field_validate_def
      must_not_be_blank_def)

lemma author_deserialize_names:
  "author_deserialize (JObj [(''first'', JStr f), (''last'', JStr l)]) =
     Inr (JObj [(''first'', JStr f), (''last'', JStr l)])"
  by (simp add: author_deserialize_def AuthorSchema_load_def load_field_def field_validate_def
      must_not_be_blank_def Str_deserialize_def)

lemma content_deserialize_blank:
  "content_deserialize (JStr '''') = Inl (ValidationError (JArr [JStr ''Data not provided.'']))"
  by (simp add: content_deserialize_def Str_deserialize_def field_validate_def must_not_be_blank_def)

lemma content_deserialize_text:
  "c \<noteq> [] \<Longrightarrow> content_deserialize (JStr c) = Inr (JStr c)"
  by (simp add: content_deserialize_def Str_deserialize_def field_validate_def must_not_be_blank_def)

lemma content_deserialize_cases:
  "(\<exists>v. content_deserialize x = Inr v) \<or> (\<exists>m. content_deserialize x = Inl (ValidationError m))"
  by (cases x)
    (simp_all add: content_deserialize_def Str_deserialize_def field_validate_def must_not_be_blank_def)

lemma load_field_content_keeps:
  "\<exists>data' errors'.
      load_field ''content'' True content_deserialize input (data, errors) = Inr (data', errors') \<and>
      map_of errors' ''author'' = map_of errors ''author''"
proof (cases "map_of input ''content''")
  case None
  then show ?thesis by (simp add: load_field_def update_conv')
next
  case (Some raw)
  from content_deserialize_cases [of raw] show ?thesis
  proof
    assume "\<exists>v. content_deserialize raw = Inr v"
    with Some show ?thesis by (auto simp: load_field_def)
  next
    assume "\<exists>m. content_deserialize raw = Inl (ValidationError m)"
    with Some show ?thesis by (auto simp: load_field_def update_conv')
  qed
qed

lemma load_author_empty:
  "map_of input ''author'' = Some (JObj []) \<Longrightarrow>
     load_field ''author'' False author_deserialize input ([], []) =
       Inr ([], [(''author'', JArr [JStr ''Data not provided.''])])"
  by (simp add: load_field_def author_deserialize_empty)

lemma load_author_names:
  "map_of input ''author'' = Some (JObj [(''first'', JStr f), (''last'', JStr l)]) \<Longrightarrow>
     load_field ''author'' False author_deserialize input ([], []) =
       Inr ([(''author'', JObj [(''first'', JStr f), (''last'', JStr l)])], [])"
  by (simp add: load_field_def author_deserialize_names)

lemma load_content_blank:
  "map_of input ''content'' = Some (JStr '''') \<Longrightarrow>
     load_field ''content'' True content_deserialize input (data, errors) =
       Inr (data, AList.update ''content'' (JArr [JStr ''Data not provided.'']) errors)"
  by (simp add: load_field_def content_deserialize_blank)

lemma load_content_text:
  "map_of input ''content'' = Some (JStr c) \<Longrightarrow> c \<noteq> [] \<Longrightarrow>
     load_field ''content'' True content_deserialize input (data, errors) =
       Inr (AList.update ''content'' (JStr c) data, errors)"
  by (simp add: load_field_def content_deserialize_text)

lemma QuoteSchema_load_absent_author:
  assumes "map_of d ''author'' = None"
  shows "\<exists>data errors. QuoteSchema_load (JObj d) = Inr (data, errors) \<and>
           map_of errors ''author'' = Some (JArr [JStr ''Data not provided.''])"
proof -
  let ?input = "AList.update ''author'' (JObj []) d"
  have pre: "process_author (JObj d) = Inr ?input"
    using assms by (rule process_author_absent)
  have "map_of ?input ''author'' = Some (JObj [])"
    by (simp add: update_conv')
  then have au: "load_field ''author'' False author_deserialize ?input ([], []) =
      Inr ([], [(''author'', JArr [JStr ''Data not provided.''])])"
    by (rule load_author_empty)
  obtain data' errors' where
    "load_field ''content'' True content_deserialize ?input
        ([], [(''author'', JArr [JStr ''Data not provided.''])]) = Inr (data', errors')"
    and "map_of errors' ''author'' = map_of [(''author'', JArr [JStr ''Data not provided.''])] ''author''"
    using load_field_content_keeps by blast
  with pre au show ?thesis
    by (simp add: QuoteSchema_load_def)
qed

lemma QuoteSchema_load_blank_content:
  assumes "map_of d ''content'' = Some (JStr '''')"
    and "process_author (JObj d) = Inr input"
  shows "\<exists>data errors. QuoteSchema_load (JObj d) = Inr (data, errors) \<and>
           map_of errors ''content'' = Some (JArr [JStr ''Data not provided.''])"
proof -
  from process_author_shape [OF assms(2)] obtain a where
    input: "input = AList.update ''author'' (JObj a) d"
    and a: "a = [] \<or> (\<exists>f l. a = [(''first'', JStr f), (''last'', JStr l)])"
    by auto
  have au: "map_of input ''author'' = Some (JObj a)"
    by (simp add: input update_conv')
  have co: "map_of input ''content'' = Some (JStr '''')"
    using assms(1) by (simp add: input update_conv')
  from a show ?thesis
  proof
    assume "a = []"
    with au have "load_field ''author'' False author_deserialize input ([], []) =
        Inr ([], [(''author'', JArr [JStr ''Data not provided.''])])"
      by (simp add: load_author_empty)
    then show ?thesis
      using assms(2) co by (simp add: QuoteSchema_load_def load_content_blank update_conv')
  next
    assume "\<exists>f l. a = [(''first'', JStr f), (''last'', JStr l)]"
    then obtain f l where "a = [(''first'', JStr f), (''last'', JStr l)]" by blast
    with au have "load_field ''author'' False author_deserialize input ([], []) =
        Inr ([(''author'', JObj [(''first'', JStr f), (''last'', JStr l)])], [])"
      by (simp add: load_author_names)
    then show ?thesis
      using assms(2) co by (simp add: QuoteSchema_load_def load_content_blank)
  qed
qed

lemma QuoteSchema_load_valid:
  assumes "map_of d ''content'' = Some (JStr c)" and "c \<noteq> []"
    and "map_of d ''author'' = Some (JStr (f @ '' '' @ l))"
    and "CHR '' '' \<notin> set f" and "CHR '' '' \<notin> set l"
  shows "QuoteSchema_load (JObj d) =
           Inr ([(''author'', JObj [(''first'', JStr f), (''last'', JStr l)]),
                 (''content'', JStr c)], [])"
proof -
  let ?input = "AList.update ''author'' (JObj [(''first'', JStr f), (''last'', JStr l)]) d"
  have pre: "process_author (JObj d) = Inr ?input"
    using assms(3-5) by (rule process_author_two_tokens)
  have "map_of ?input ''author'' = Some (JObj [(''first'', JStr f), (''last'', JStr l)])"
    by (simp add: update_conv')
  then have au: "load_field ''author'' False author_deserialize ?input ([], []) =
      Inr ([(''author'', JObj [(''first'', JStr f), (''last'', JStr l)])], [])"
    by (rule load_author_names)
  have "map_of ?input ''content'' = Some (JStr c)"
    using assms(1) by (simp add: update_conv')
  then have "load_field ''content'' True content_deserialize ?input
      ([(''author'', JObj [(''first'', JStr f), (''last'', JStr l)])], []) =
      Inr (AList.update ''content'' (JStr c)
            [(''author'', JObj [(''first'', JStr f), (''last'', JStr l)])], [])"
    using assms(2) by (rule load_content_text)
  with pre au show ?thesis
    by (simp add: QuoteSchema_load_def)
qed

section \<open>Names the program reads but never binds\<close>

lemma Author_has_no_query: "class_getattr Author_attrs ''query'' = Inl AttributeError"
  by (simp add: class_getattr_def Author_attrs_def Base_attrs_def)

lemma Quote_has_no_query: "class_getattr Quote_attrs ''query'' = Inl AttributeError"
  by (simp add: class_getattr_def Quote_attrs_def Base_attrs_def)

lemma db_is_unbound: "global_lookup ''db'' = Inl NameError"
  by (simp add: global_lookup_def module_globals_def)

section \<open>Posting a quote\<close>

lemma new_quote_errors:
  assumes "d \<noteq> []" and "QuoteSchema_load (JObj d) = Inr (data, errors)" and "errors \<noteq> []"
  shows "new_quote s now (JObj d) = (Inr \<lparr>status = 422, body = JObj errors\<rparr>, s)"
  using assms by (simp add: new_quote_def)

text \<open>A body that loads without errors takes the handler to \<^verbatim>\<open>Author.query\<close>.\<close>

lemma new_quote_valid_raises:
  assumes "map_of d ''content'' = Some (JStr c)" and "c \<noteq> []"
    and "map_of d ''author'' = Some (JStr (f @ '' '' @ l))"
    and "CHR '' '' \<notin> set f" and "CHR '' '' \<notin> set l"
  shows "new_quote s now (JObj d) = (Inl AttributeError, s)"
proof -
  have "d \<noteq> []" using assms(1) by auto
  then show ?thesis
    by (simp add: new_quote_def QuoteSchema_load_valid [OF assms] Author_has_no_query)
qed

text \<open>No request changes the database, and no request is answered with status 200: the
  handler has no successful run, whatever the database and the body are.\<close>

lemma new_quote_unchanged: "snd (new_quote s now json_data) = s"
  by (simp add: new_quote_def Author_has_no_query split: sum.splits prod.splits)

lemma new_quote_never_200: "fst (new_quote s now json_data) \<noteq> Inr \<lparr>status = 200, body = b\<rparr>"
  by (simp add: new_quote_def Author_has_no_query split: sum.splits prod.splits)

section \<open>The claims\<close>

text \<open>
  Claim C1 says that a POST with non-blank content and a two-token author name is
  answered with status 200, the message ``Created new quote.'' and the quote. On an empty
  database, the body \<^verbatim>\<open>{"content": "Simple is better than complex.", "author": "Tim Peters"}\<close>
  loads without errors, and the handler then raises \<^verbatim>\<open>AttributeError\<close> at
  \<^verbatim>\<open>Author.query\<close>: there is no response at all.
\<close>

theorem new_quote_valid_post_no_response:
  "fst (new_quote \<lparr>authors = [], quotes = []\<rparr> ''2020-01-01T00:00:00''
     (JObj [(''content'', JStr ''Simple is better than complex.''),
            (''author'', JStr ''Tim Peters'')])) = Inl AttributeError"
  by (simp add: new_quote_def QuoteSchema_load_def process_author_def dict_get_def unpack2_def
      load_field_def author_deserialize_names content_deserialize_text Author_has_no_query)

text \<open>
  Claim C2 says that a GET on \<^verbatim>\<open>/authors/<id>\<close> or \<^verbatim>\<open>/quotes/<id>\<close> with an id that has no
  row is answered with status 400 and a message. On an empty database and id 1, both
  handlers raise \<^verbatim>\<open>AttributeError\<close> at the \<^verbatim>\<open>query\<close> attribute, which the
  \<^verbatim>\<open>except IntegrityError\<close> clause does not catch.
\<close>

theorem get_missing_id_raises:
  "get_author \<lparr>authors = [], quotes = []\<rparr> 1 = Inl AttributeError \<and>
   get_quote \<lparr>authors = [], quotes = []\<rparr> 1 = Inl AttributeError"
  by (simp add: get_author_def get_quote_def Author_has_no_query Quote_has_no_query)

text \<open>
  Claim C3, amended. The pre-load hook runs before the fields are validated. If the input
  holds an \<^verbatim>\<open>author\<close> string with exactly one space, the string is split at that space
  into first and last name, and the nested object of the two replaces the raw value. If the
  input has no \<^verbatim>\<open>author\<close> key, the author becomes the empty object, and the load then
  reports ``Data not provided.'' for \<^verbatim>\<open>author\<close>.
\<close>

theorem process_author_one_space:
  "(map_of d ''author'' = Some (JStr a) \<and> count_list a CHR '' '' = 1 \<longrightarrow>
      process_author (JObj d) =
        Inr (AList.update ''author''
               (JObj [(''first'', JStr (fst (spec_split_first_space a))),
                      (''last'', JStr (snd (spec_split_first_space a)))]) d)) \<and>
   (map_of d ''author'' = None \<longrightarrow>
      process_author (JObj d) = Inr (AList.update ''author'' (JObj []) d) \<and>
      (\<exists>data errors. QuoteSchema_load (JObj d) = Inr (data, errors) \<and>
         map_of errors ''author'' = Some (JArr [JStr ''Data not provided.''])))"
proof (intro conjI impI)
  assume h: "map_of d ''author'' = Some (JStr a) \<and> count_list a CHR '' '' = 1"
  let ?f = "fst (spec_split_first_space a)" and ?l = "snd (spec_split_first_space a)"
  from h one_sep_decompose [of a "CHR '' ''"]
  have "a = ?f @ '' '' @ ?l" and "CHR '' '' \<notin> set ?f" and "CHR '' '' \<notin> set ?l"
    by (simp_all add: spec_split_first_space_def)
  with h have "map_of d ''author'' = Some (JStr (?f @ '' '' @ ?l))" by simp
  then show "process_author (JObj d) =
      Inr (AList.update ''author'' (JObj [(''first'', JStr ?f), (''last'', JStr ?l)]) d)"
    using \<open>CHR '' '' \<notin> set ?f\<close> \<open>CHR '' '' \<notin> set ?l\<close> by (rule process_author_two_tokens)
next
  assume "map_of d ''author'' = None"
  then show "process_author (JObj d) = Inr (AList.update ''author'' (JObj []) d)"
    by (rule process_author_absent)
next
  assume "map_of d ''author'' = None"
  then show "\<exists>data errors. QuoteSchema_load (JObj d) = Inr (data, errors) \<and>
      map_of errors ''author'' = Some (JArr [JStr ''Data not provided.''])"
    by (rule QuoteSchema_load_absent_author)
qed

text \<open>Witness for C3: the author ``Tim Peters'', and a body without author.\<close>

theorem process_author_one_space_witness:
  "process_author (JObj [(''content'', JStr ''x''), (''author'', JStr ''Tim Peters'')]) =
     Inr [(''content'', JStr ''x''),
          (''author'', JObj [(''first'', JStr ''Tim''), (''last'', JStr ''Peters'')])] \<and>
   process_author (JObj [(''content'', JStr ''x'')]) =
     Inr [(''content'', JStr ''x''), (''author'', JObj [])] \<and>
   (\<exists>data errors. QuoteSchema_load (JObj [(''content'', JStr ''x'')]) = Inr (data, errors) \<and>
      map_of errors ''author'' = Some (JArr [JStr ''Data not provided.'']))"
  using process_author_one_space
          [of "[(''content'', JStr ''x''), (''author'', JStr ''Tim Peters'')]" "''Tim Peters''"]
        process_author_one_space [of "[(''content'', JStr ''x'')]" "''''"]
  by (simp add: spec_split_first_space_def)

text \<open>
  Counterexample to C3 as stated: split on the first space, ``Tim Van Peters'' would be
  first name ``Tim'' and last name ``Van Peters''; the hook cuts at every space, gets three
  pieces and raises \<^verbatim>\<open>ValueError\<close> on unpacking them into two names.
\<close>

theorem process_author_first_space_counterexample:
  "spec_split_first_space ''Tim Van Peters'' = (''Tim'', ''Van Peters'') \<and>
   process_author (JObj [(''author'', JStr ''Tim Van Peters'')]) = Inl ValueError"
  by (simp add: spec_split_first_space_def process_author_def dict_get_def unpack2_def)

text \<open>
  Claim C5, amended. For every POST whose JSON body is an object with the empty string as
  \<^verbatim>\<open>content\<close>, and whose \<^verbatim>\<open>author\<close> is absent, falsy or a string with exactly one space
  (so that the pre-load hook returns), the handler answers with status 422 and an error
  map with an entry for \<^verbatim>\<open>content\<close>; the database is left as it was.
\<close>

theorem new_quote_blank_content:
  assumes "map_of d ''content'' = Some (JStr '''')"
    and "\<not> truthy (dict_get d ''author'') \<or>
         (\<exists>a. dict_get d ''author'' = JStr a \<and> count_list a CHR '' '' = 1)"
  shows "\<exists>errors.
           new_quote s now (JObj d) = (Inr \<lparr>status = 422, body = JObj errors\<rparr>, s) \<and>
           map_of errors ''content'' = Some (JArr [JStr ''Data not provided.''])"
proof -
  from assms(2) obtain input where "process_author (JObj d) = Inr input"
    using process_author_succeeds by blast
  with assms(1) obtain data errors where
    load: "QuoteSchema_load (JObj d) = Inr (data, errors)"
    and entry: "map_of errors ''content'' = Some (JArr [JStr ''Data not provided.''])"
    using QuoteSchema_load_blank_content by blast
  have "d \<noteq> []" using assms(1) by auto
  moreover have "errors \<noteq> []" using entry by auto
  ultimately have "new_quote s now (JObj d) = (Inr \<lparr>status = 422, body = JObj errors\<rparr>, s)"
    using load by (simp add: new_quote_errors)
  with entry show ?thesis by blast
qed

text \<open>Witness for C5: blank content with the author ``Tim Peters'', and blank content
  with no author.\<close>

theorem new_quote_blank_content_witness:
  "(\<exists>errors.
      new_quote \<lparr>authors = [], quotes = []\<rparr> ''2020-01-01T00:00:00''
        (JObj [(''content'', JStr ''''), (''author'', JStr ''Tim Peters'')]) =
        (Inr \<lparr>status = 422, body = JObj errors\<rparr>, \<lparr>authors = [], quotes = []\<rparr>) \<and>
      map_of errors ''content'' = Some (JArr [JStr ''Data not provided.''])) \<and>
   (\<exists>errors.
      new_quote \<lparr>authors = [], quotes = []\<rparr> ''2020-01-01T00:00:00''
        (JObj [(''content'', JStr '''')]) =
        (Inr \<lparr>status = 422, body = JObj errors\<rparr>, \<lparr>authors = [], quotes = []\<rparr>) \<and>
      map_of errors ''content'' = Some (JArr [JStr ''Data not provided.'']))"
proof
  have "map_of [(''content'', JStr ''''), (''author'', JStr ''Tim Peters'')] ''content'' =
      Some (JStr '''')"
    by simp
  moreover have "\<not> truthy (dict_get [(''content'', JStr ''''), (''author'', JStr ''Tim Peters'')] ''author'') \<or>
      (\<exists>a. dict_get [(''content'', JStr ''''), (''author'', JStr ''Tim Peters'')] ''author'' = JStr a \<and>
           count_list a CHR '' '' = 1)"
    by (simp add: dict_get_def)
  ultimately show "\<exists>errors.
      new_quote \<lparr>authors = [], quotes = []\<rparr> ''2020-01-01T00:00:00''
        (JObj [(''content'', JStr ''''), (''author'', JStr ''Tim Peters'')]) =
        (Inr \<lparr>status = 422, body = JObj errors\<rparr>, \<lparr>authors = [], quotes = []\<rparr>) \<and>
      map_of errors ''content'' = Some (JArr [JStr ''Data not provided.''])"
    by (rule new_quote_blank_content)
next
  have "map_of [(''content'', JStr '''')] ''content'' = Some (JStr '''')"
    by simp
  moreover have "\<not> truthy (dict_get [(''content'', JStr '''')] ''author'') \<or>
      (\<exists>a. dict_get [(''content'', JStr '''')] ''author'' = JStr a \<and> count_list a CHR '' '' = 1)"
    by (simp add: dict_get_def)
  ultimately show "\<exists>errors.
      new_quote \<lparr>authors = [], quotes = []\<rparr> ''2020-01-01T00:00:00''
        (JObj [(''content'', JStr '''')]) =
        (Inr \<lparr>status = 422, body = JObj errors\<rparr>, \<lparr>authors = [], quotes = []\<rparr>) \<and>
      map_of errors ''content'' = Some (JArr [JStr ''Data not provided.''])"
    by (rule new_quote_blank_content)
qed

text \<open>
  Counterexample to C5 as stated: the body \<^verbatim>\<open>{"content": "", "author": "TimVanPeters"}\<close>
  has blank content, and the handler raises \<^verbatim>\<open>ValueError\<close> in the pre-load hook before
  any field is validated.
\<close>

theorem new_quote_blank_content_counterexample:
  "new_quote \<lparr>authors = [], quotes = []\<rparr> ''2020-01-01T00:00:00''
     (JObj [(''content'', JStr ''''), (''author'', JStr ''TimVanPeters'')]) =
     (Inl ValueError, \<lparr>authors = [], quotes = []\<rparr>)"
  by (simp add: new_quote_def QuoteSchema_load_def process_author_def dict_get_def unpack2_def)

text \<open>
  Claim C6, amended. For every POST whose JSON body is a non-empty object without an
  \<^verbatim>\<open>author\<close> key, the handler answers with status 422 and an error map with an entry for
  \<^verbatim>\<open>author\<close>; the database is left as it was.
\<close>

theorem new_quote_missing_author:
  assumes "d \<noteq> []" and "map_of d ''author'' = None"
  shows "\<exists>errors.
           new_quote s now (JObj d) = (Inr \<lparr>status = 422, body = JObj errors\<rparr>, s) \<and>
           map_of errors ''author'' = Some (JArr [JStr ''Data not provided.''])"
proof -
  from assms(2) obtain data errors where
    load: "QuoteSchema_load (JObj d) = Inr (data, errors)"
    and entry: "map_of errors ''author'' = Some (JArr [JStr ''Data not provided.''])"
    using QuoteSchema_load_absent_author by blast
  have "errors \<noteq> []" using entry by auto
  with assms(1) load
  have "new_quote s now (JObj d) = (Inr \<lparr>status = 422, body = JObj errors\<rparr>, s)"
    by (simp add: new_quote_errors)
  with entry show ?thesis by blast
qed

text \<open>Witness for C6: a body with content only.\<close>

theorem new_quote_missing_author_witness:
  "\<exists>errors.
      new_quote \<lparr>authors = [], quotes = []\<rparr> ''2020-01-01T00:00:00''
        (JObj [(''content'', JStr ''Simple is better than complex.'')]) =
        (Inr \<lparr>status = 422, body = JObj errors\<rparr>, \<lparr>authors = [], quotes = []\<rparr>) \<and>
      map_of errors ''author'' = Some (JArr [JStr ''Data not provided.''])"
proof -
  have "[(''content'', JStr ''Simple is better than complex.'')] \<noteq> []"
    by simp
  moreover have "map_of [(''content'', JStr ''Simple is better than complex.'')] ''author'' = None"
    by simp
  ultimately show ?thesis
    by (rule new_quote_missing_author)
qed

text \<open>
  Counterexample to C6 as stated: the body \<^verbatim>\<open>{}\<close> has no \<^verbatim>\<open>author\<close> key, and the handler
  answers it with status 400, ``No input data provided'', since an empty dict is falsy.
\<close>

theorem new_quote_missing_author_counterexample:
  "map_of ([] :: dict) ''author'' = None \<and>
   new_quote \<lparr>authors = [], quotes = []\<rparr> ''2020-01-01T00:00:00'' (JObj []) =
     (Inr \<lparr>status = 400, body = JObj [(''message'', JStr ''No input data provided'')]\<rparr>,
      \<lparr>authors = [], quotes = []\<rparr>)"
  by (simp add: new_quote_def)

text \<open>
  Claim C8. For every author record, the dump through \<open>AuthorSchema\<close> holds the record's
  \<^verbatim>\<open>first\<close> and \<^verbatim>\<open>last\<close>, and its \<^verbatim>\<open>formatted_name\<close> is the text of \<^verbatim>\<open>last\<close>, a comma
  and a space, and the text of \<^verbatim>\<open>first\<close>.
\<close>

theorem AuthorSchema_dump_formatted_name:
  "map_of (AuthorSchema_dump author) ''first'' = Some (dump_str (Author_first author)) \<and>
   map_of (AuthorSchema_dump author) ''last'' = Some (dump_str (Author_last author)) \<and>
   map_of (AuthorSchema_dump author) ''formatted_name'' =
     Some (JStr (py_str (Author_last author) @ '', '' @ py_str (Author_first author)))"
  by (simp add: AuthorSchema_dump_def format_name_def)

text \<open>Witness for C8: Tim Peters is dumped with the formatted name ``Peters, Tim''.\<close>

theorem AuthorSchema_dump_formatted_name_witness:
  "map_of (AuthorSchema_dump
      \<lparr>Author_id = 1, Author_first = Some ''Tim'', Author_last = Some ''Peters''\<rparr>) ''first'' =
     Some (JStr ''Tim'') \<and>
   map_of (AuthorSchema_dump
      \<lparr>Author_id = 1, Author_first = Some ''Tim'', Author_last = Some ''Peters''\<rparr>) ''last'' =
     Some (JStr ''Peters'') \<and>
   map_of (AuthorSchema_dump
      \<lparr>Author_id = 1, Author_first = Some ''Tim'', Author_last = Some ''Peters''\<rparr>)
      ''formatted_name'' = Some (JStr ''Peters, Tim'')"
  using AuthorSchema_dump_formatted_name
          [of "\<lparr>Author_id = 1, Author_first = Some ''Tim'', Author_last = Some ''Peters''\<rparr>"]
  by (simp add: py_str_def dump_str_def)

text \<open>
  Claim C9, amended. For every POST whose \<^verbatim>\<open>author\<close> is a non-empty string that does not
  contain exactly one space, unpacking the pieces of the split into two names raises
  \<^verbatim>\<open>ValueError\<close>, which nothing catches: the request ends in that exception and not in a
  400 or 422 response. The database is left as it was.
\<close>

theorem new_quote_author_unpack_raises:
  assumes "map_of d ''author'' = Some (JStr a)" and "a \<noteq> []"
    and "count_list a CHR '' '' \<noteq> 1"
  shows "new_quote s now (JObj d) = (Inl ValueError, s)"
proof -
  have "d \<noteq> []" using assms(1) by auto
  moreover have "process_author (JObj d) = Inl ValueError"
    using assms by (rule process_author_ValueError)
  ultimately show ?thesis
    by (simp add: new_quote_def QuoteSchema_load_def)
qed

text \<open>Witness for C9: the authors ``TimVanPeters'' and ``Tim Van Peters''.\<close>

theorem new_quote_author_unpack_raises_witness:
  "new_quote \<lparr>authors = [], quotes = []\<rparr> ''2020-01-01T00:00:00''
     (JObj [(''content'', JStr ''x''), (''author'', JStr ''TimVanPeters'')]) =
     (Inl ValueError, \<lparr>authors = [], quotes = []\<rparr>) \<and>
   new_quote \<lparr>authors = [], quotes = []\<rparr> ''2020-01-01T00:00:00''
     (JObj [(''content'', JStr ''x''), (''author'', JStr ''Tim Van Peters'')]) =
     (Inl ValueError, \<lparr>authors = [], quotes = []\<rparr>)"
  using new_quote_author_unpack_raises
          [of "[(''content'', JStr ''x''), (''author'', JStr ''TimVanPeters'')]" "''TimVanPeters''"
              "\<lparr>authors = [], quotes = []\<rparr>" "''2020-01-01T00:00:00''"]
        new_quote_author_unpack_raises
          [of "[(''content'', JStr ''x''), (''author'', JStr ''Tim Van Peters'')]" "''Tim Van Peters''"
              "\<lparr>authors = [], quotes = []\<rparr>" "''2020-01-01T00:00:00''"]
  by simp

text \<open>
  Counterexample to C9 as stated: the empty author string does not contain exactly one
  space, and it is falsy, so it is never split; the request is answered with status 422
  and an error for \<^verbatim>\<open>author\<close>.
\<close>

theorem new_quote_author_unpack_counterexample:
  "count_list '''' CHR '' '' \<noteq> 1 \<and>
   new_quote \<lparr>authors = [], quotes = []\<rparr> ''2020-01-01T00:00:00''
     (JObj [(''content'', JStr ''x''), (''author'', JStr '''')]) =
     (Inr \<lparr>status = 422, body = JObj [(''author'', JArr [JStr ''Data not provided.''])]\<rparr>,
      \<lparr>authors = [], quotes = []\<rparr>)"
  by (simp add: new_quote_def QuoteSchema_load_def process_author_def dict_get_def load_field_def
      author_deserialize_empty content_deserialize_text)

text \<open>
  Claim C10. The handlers of \<^verbatim>\<open>GET /authors\<close>, \<^verbatim>\<open>GET /authors/<id>\<close> and
  \<^verbatim>\<open>GET /quotes/<id>\<close> read \<^verbatim>\<open>Author.query\<close> or \<^verbatim>\<open>Quote.query\<close>, which neither class has:
  whatever the database holds and whatever id is asked for, each of them raises
  \<^verbatim>\<open>AttributeError\<close>.
\<close>

theorem query_routes_raise:
  "get_authors s = Inl AttributeError \<and>
   get_author s pk = Inl AttributeError \<and>
   get_quote s pk = Inl AttributeError"
  by (simp add: get_authors_def get_author_def get_quote_def Author_has_no_query
      Quote_has_no_query)

text \<open>Witness for C10: a database with one author and one quote, both with id 1.\<close>

theorem query_routes_raise_witness:
  "get_authors
     \<lparr>authors = [\<lparr>Author_id = 1, Author_first = Some ''Tim'', Author_last = Some ''Peters''\<rparr>],
      quotes = [\<lparr>Quote_id = 1, Quote_content = Some ''x'', Quote_author_id = Some 1,
                 Quote_posted_at = Some ''2020-01-01T00:00:00''\<rparr>]\<rparr> = Inl AttributeError \<and>
   get_author
     \<lparr>authors = [\<lparr>Author_id = 1, Author_first = Some ''Tim'', Author_last = Some ''Peters''\<rparr>],
      quotes = [\<lparr>Quote_id = 1, Quote_content = Some ''x'', Quote_author_id = Some 1,
                 Quote_posted_at = Some ''2020-01-01T00:00:00''\<rparr>]\<rparr> 1 = Inl AttributeError \<and>
   get_quote
     \<lparr>authors = [\<lparr>Author_id = 1, Author_first = Some ''Tim'', Author_last = Some ''Peters''\<rparr>],
      quotes = [\<lparr>Quote_id = 1, Quote_content = Some ''x'', Quote_author_id = Some 1,
                 Quote_posted_at = Some ''2020-01-01T00:00:00''\<rparr>]\<rparr> 1 = Inl AttributeError"
  by (rule query_routes_raise)

end
